theory Spec2Isabelle
  imports Complex_Main "HOL-Library.AList"
begin

section \<open>Python values, exceptions and float arithmetic\<close>

text \<open>
  The exceptions the modelled functions can raise. \<open>ConfigParserError\<close> stands for the
  subclasses of \<open>configparser.Error\<close> that reading a file raises (a duplicate section or
  option, a line that does not parse); the three interpolation errors are those of
  \<open>configparser.BasicInterpolation\<close>.
\<close>

datatype error =
    KeyError
  | ValueError
  | TypeError
  | ZeroDivisionError
  | IndexError
  | OSError
  | ConfigParserError
  | InterpolationSyntaxError
  | InterpolationMissingOptionError
  | InterpolationDepthError

text \<open>
  A Python \<open>float\<close> is a finite binary floating-point number: a real number. Every
  arithmetic operation computes the exact real result and rounds it; the rounding function
  is the parameter \<open>rnd\<close> of every definition that computes with floats (round-to-nearest
  of IEEE 754 doubles is one such function, the identity is exact arithmetic). Infinities
  and NaN are outside the model on the scalar paths. Dividing by zero raises
  \<open>ZeroDivisionError\<close>.
\<close>

type_synonym rounding = "real \<Rightarrow> real"

definition truediv :: "rounding \<Rightarrow> real \<Rightarrow> real \<Rightarrow> error + real" where
  "truediv rnd a b = (if b = 0 then Inl ZeroDivisionError else Inr (rnd (a / b)))"

definition mul :: "rounding \<Rightarrow> real \<Rightarrow> real \<Rightarrow> real" where
  "mul rnd a b = rnd (a * b)"

definition sub :: "rounding \<Rightarrow> real \<Rightarrow> real \<Rightarrow> real" where
  "sub rnd a b = rnd (a - b)"

text \<open>
  A rounding function with relative error at most \<open>u\<close>. Round-to-nearest of IEEE 754
  doubles has relative error at most \<open>2 ^ 53\<close> reciprocal on every result that neither
  overflows nor underflows.
\<close>

definition accurate :: "real \<Rightarrow> rounding \<Rightarrow> bool" where
  "accurate u rnd = (\<forall>x. \<bar>rnd x - x\<bar> \<le> u * \<bar>x\<bar>)"

text \<open>
  \<open>near e c y\<close>: the value \<open>y\<close> lies within relative distance \<open>e\<close> of the positive
  value \<open>c\<close>.
\<close>

definition near :: "real \<Rightarrow> real \<Rightarrow> real \<Rightarrow> bool" where
  "near e c y = (c * (1 - e) \<le> y \<and> y \<le> c * (1 + e))"

text \<open>
  An element of a numpy \<open>float64\<close> array. numpy does not raise on a division by zero: the
  element becomes an infinity or a NaN (\<open>NonFinite\<close>), and stays one when it is then
  divided or multiplied by a float.
\<close>

datatype float64 = Finite real | NonFinite

definition np_truediv :: "rounding \<Rightarrow> float64 \<Rightarrow> real \<Rightarrow> float64" where
  "np_truediv rnd a b =
     (case a of
        Finite x \<Rightarrow> (if b = 0 then NonFinite else Finite (rnd (x / b)))
      | NonFinite \<Rightarrow> NonFinite)"

definition np_mul :: "rounding \<Rightarrow> float64 \<Rightarrow> real \<Rightarrow> float64" where
  "np_mul rnd a b = (case a of Finite x \<Rightarrow> Finite (rnd (x * b)) | NonFinite \<Rightarrow> NonFinite)"

section \<open>Strings\<close>

text \<open>
  \<open>'{}'.format(x)\<close> and \<open>str(x)\<close> for the arguments the functions receive: a string, an
  integer (its decimal representation) or \<open>None\<close>.
\<close>

datatype pyarg = PyNone | PyStr string | PyInt int

fun str_nat :: "nat \<Rightarrow> string" where
  "str_nat n =
     (if n < 10 then [''0123456789'' ! n]
      else str_nat (n div 10) @ [''0123456789'' ! (n mod 10)])"

declare str_nat.simps [simp del]

definition str_int :: "int \<Rightarrow> string" where
  "str_int i = (if i < 0 then CHR ''-'' # str_nat (nat (- i)) else str_nat (nat i))"

definition format :: "pyarg \<Rightarrow> string" where
  "format a = (case a of PyNone \<Rightarrow> ''None'' | PyStr s \<Rightarrow> s | PyInt i \<Rightarrow> str_int i)"

text \<open>\<open>'{:02}'.format(ch)\<close> for a channel number: at least two digits, padded with a zero.\<close>

definition format_02 :: "nat \<Rightarrow> string" where
  "format_02 ch = (if ch < 10 then CHR ''0'' # str_nat ch else str_nat ch)"

text \<open>\<open>str.lower\<close> on ASCII letters, the default \<open>optionxform\<close> of a \<open>ConfigParser\<close>.\<close>

definition lower_char :: "char \<Rightarrow> char" where
  "lower_char c =
     (case map_of (zip ''ABCDEFGHIJKLMNOPQRSTUVWXYZ'' ''abcdefghijklmnopqrstuvwxyz'') c of
        None \<Rightarrow> c
      | Some l \<Rightarrow> l)"

definition optionxform :: "string \<Rightarrow> string" where
  "optionxform optionstr = map lower_char optionstr"


section \<open>The configuration store\<close>

text \<open>
  The state of a \<open>configparser.ConfigParser\<close> (a standard-library class): the options of
  the \<open>DEFAULT\<close> section and the other sections, each a dictionary in insertion order.
  The definitions below follow the library's \<open>__getitem__\<close>, \<open>has_option\<close>, \<open>get\<close>,
  \<open>set\<close>, \<open>options\<close> and \<open>BasicInterpolation\<close>.
\<close>

type_synonym options = "(string \<times> string) list"

record ConfigParser =
  defaults :: options
  sections :: "(string \<times> options) list"

definition default_section :: string where
  "default_section = ''DEFAULT''"

definition has_section :: "ConfigParser \<Rightarrow> string \<Rightarrow> bool" where
  "has_section p section = (map_of (sections p) section \<noteq> None)"

text \<open>
  The options stored under a section name, none for a name that is not a section. The
  library keeps the default section apart and never stores it among the sections.
\<close>

definition sectiondict :: "ConfigParser \<Rightarrow> string \<Rightarrow> options" where
  "sectiondict p section =
     (if section = default_section then []
      else case map_of (sections p) section of None \<Rightarrow> [] | Some d \<Rightarrow> d)"

definition has_option :: "ConfigParser \<Rightarrow> string \<Rightarrow> string \<Rightarrow> bool" where
  "has_option p section option =
     (if section = [] \<or> section = default_section
      then map_of (defaults p) (optionxform option) \<noteq> None
      else if \<not> has_section p section then False
      else map_of (sectiondict p section) (optionxform option) \<noteq> None
           \<or> map_of (defaults p) (optionxform option) \<noteq> None)"

text \<open>\<open>_unify_values\<close>: the section's options shadow the defaults.\<close>

definition unify_values :: "ConfigParser \<Rightarrow> string \<Rightarrow> (string \<rightharpoonup> string)" where
  "unify_values p section = map_of (defaults p) ++ map_of (sectiondict p section)"

text \<open>
  The regular expression \<open>%\(([^)]+)\)s\<close> matched at the text after \<open>%(\<close>: the name and
  the text after the match.
\<close>

definition match_key :: "string \<Rightarrow> (string \<times> string) option" where
  "match_key r =
     (let name = takeWhile (\<lambda>c. c \<noteq> CHR '')'') r;
          rest = dropWhile (\<lambda>c. c \<noteq> CHR '')'') r
      in if name \<noteq> [] \<and> take 2 rest = '')s'' then Some (name, drop 2 rest) else None)"

lemma match_key_length: "match_key r = Some (name, rest') \<Longrightarrow> length rest' \<le> length r"
  using length_dropWhile_le [of "\<lambda>c. c \<noteq> CHR '')''" r]
  by (auto simp: match_key_def Let_def split: if_splits)

text \<open>\<open>BasicInterpolation._interpolate_some\<close>; the depth starts at 1 and may reach 10.\<close>

function interpolate_some :: "(string \<rightharpoonup> string) \<Rightarrow> nat \<Rightarrow> string \<Rightarrow> error + string" where
  "interpolate_some m depth rest =
     (if depth > 10 then Inl InterpolationDepthError
      else case rest of
        [] \<Rightarrow> Inr []
      | c # cs \<Rightarrow>
          if c \<noteq> CHR ''%'' then
            (case interpolate_some m depth cs of Inl e \<Rightarrow> Inl e | Inr out \<Rightarrow> Inr (c # out))
          else if take 1 cs = ''%'' then
            (case interpolate_some m depth (drop 1 cs) of
               Inl e \<Rightarrow> Inl e
             | Inr out \<Rightarrow> Inr (CHR ''%'' # out))
          else if take 1 cs = ''('' then
            (case match_key (drop 1 cs) of
               None \<Rightarrow> Inl InterpolationSyntaxError
             | Some (name, rest') \<Rightarrow>
                 (case m (optionxform name) of
                    None \<Rightarrow> Inl InterpolationMissingOptionError
                  | Some v \<Rightarrow>
                      (case (if CHR ''%'' \<in> set v then interpolate_some m (depth + 1) v
                             else Inr v) of
                         Inl e \<Rightarrow> Inl e
                       | Inr expanded \<Rightarrow>
                           (case interpolate_some m depth rest' of
                              Inl e \<Rightarrow> Inl e
                            | Inr out \<Rightarrow> Inr (expanded @ out)))))
          else Inl InterpolationSyntaxError)"
  by pat_completeness auto
termination
  apply (relation "measures [\<lambda>(m, depth, rest). 11 - depth, \<lambda>(m, depth, rest). length rest]")
      apply simp
     apply simp
    apply simp
   apply simp
  apply (auto dest!: match_key_length)
  done

declare interpolate_some.simps [simp del]

definition before_get :: "(string \<rightharpoonup> string) \<Rightarrow> string \<Rightarrow> error + string" where
  "before_get m val = interpolate_some m 1 val"

text \<open>
  \<open>BasicInterpolation.before_set\<close>: after \<open>%%\<close> and every \<open>%(name)s\<close> are removed, no
  \<open>%\<close> may remain.
\<close>

fun replace_percent2 :: "string \<Rightarrow> string" where
  "replace_percent2 (a # b # r) =
     (if a = CHR ''%'' \<and> b = CHR ''%'' then replace_percent2 r
      else a # replace_percent2 (b # r))"
| "replace_percent2 r = r"

function sub_key :: "string \<Rightarrow> string" where
  "sub_key [] = []"
| "sub_key (c # cs) =
     (if c = CHR ''%'' \<and> take 1 cs = ''('' then
        (case match_key (drop 1 cs) of
           None \<Rightarrow> c # sub_key cs
         | Some (name, rest') \<Rightarrow> sub_key rest')
      else c # sub_key cs)"
  by pat_completeness auto
termination
  apply (relation "measure length")
   apply (auto dest!: match_key_length)
  done

definition before_set :: "string \<Rightarrow> error + string" where
  "before_set val =
     (if CHR ''%'' \<in> set (sub_key (replace_percent2 val)) then Inl ValueError else Inr val)"

text \<open>\<open>ConfigParser.get(section, option)\<close>, called once the option is known to exist.\<close>

definition ConfigParser_get :: "ConfigParser \<Rightarrow> string \<Rightarrow> string \<Rightarrow> error + string" where
  "ConfigParser_get p section option =
     (let d = unify_values p section in
      case d (optionxform option) of
        None \<Rightarrow> Inl KeyError
      | Some val \<Rightarrow> before_get d val)"

text \<open>\<open>parser[section][key]\<close>.\<close>

definition getitem :: "ConfigParser \<Rightarrow> string \<Rightarrow> string \<Rightarrow> error + string" where
  "getitem p section key =
     (if section \<noteq> default_section \<and> \<not> has_section p section then Inl KeyError
      else if \<not> has_option p section key then Inl KeyError
      else ConfigParser_get p section key)"

text \<open>\<open>parser[section][key] = value\<close> for string arguments.\<close>

definition setitem :: "ConfigParser \<Rightarrow> string \<Rightarrow> string \<Rightarrow> string \<Rightarrow> error + ConfigParser" where
  "setitem p section key val =
     (if section \<noteq> default_section \<and> \<not> has_section p section then Inl KeyError
      else case (if val \<noteq> [] then before_set val else Inr val) of
        Inl e \<Rightarrow> Inl e
      | Inr val' \<Rightarrow>
          if section = [] \<or> section = default_section
          then Inr (p\<lparr>defaults := AList.update (optionxform key) val' (defaults p)\<rparr>)
          else Inr (p\<lparr>sections :=
                  AList.update section
                    (AList.update (optionxform key) val' (sectiondict p section))
                    (sections p)\<rparr>))"

text \<open>
  The keys of \<open>parser[section]\<close> (the section's own options, then the defaults it does
  not shadow) and the dictionary \<open>dict(zip(keys, values))\<close> built from them.
\<close>

definition section_keys :: "ConfigParser \<Rightarrow> string \<Rightarrow> string list" where
  "section_keys p section =
     (if section = default_section then map fst (defaults p)
      else map fst (sectiondict p section)
           @ filter (\<lambda>k. k \<notin> set (map fst (sectiondict p section))) (map fst (defaults p)))"

fun section_items :: "ConfigParser \<Rightarrow> string \<Rightarrow> string list \<Rightarrow> error + options" where
  "section_items p section [] = Inr []"
| "section_items p section (k # ks) =
     (case getitem p section k of
        Inl e \<Rightarrow> Inl e
      | Inr v \<Rightarrow>
          (case section_items p section ks of
             Inl e \<Rightarrow> Inl e
           | Inr kvs \<Rightarrow> Inr ((k, v) # kvs)))"

text \<open>
  What reading a file yields: its sections in order, each with its option lines in order.
  \<open>ConfigParser.read\<close> merges them into the parser: an existing section is reused, a new
  one is appended, and every option read, its key transformed by \<open>optionxform\<close>,
  overwrites the stored one. The parser is strict:
  a section other than the default one that occurs twice in the file is an error, and so
  is an option that occurs twice in a section.
\<close>

type_synonym ini = "(string \<times> options) list"

definition read_keys :: "options \<Rightarrow> options" where
  "read_keys opts = map (\<lambda>(k, v). (optionxform k, v)) opts"

definition read_options :: "options \<Rightarrow> options \<Rightarrow> options" where
  "read_options opts cursect = fold (\<lambda>(k, v). AList.update k v) (read_keys opts) cursect"

definition read_section :: "string \<times> options \<Rightarrow> ConfigParser \<Rightarrow> ConfigParser" where
  "read_section sec p =
     (case sec of (sectname, opts) \<Rightarrow>
        if sectname = default_section
        then p\<lparr>defaults := read_options opts (defaults p)\<rparr>
        else p\<lparr>sections :=
               AList.update sectname (read_options opts (sectiondict p sectname)) (sections p)\<rparr>)"

text \<open>The options of a file, each with the name of its section and its transformed key.\<close>

definition file_options :: "ini \<Rightarrow> ((string \<times> string) \<times> string) list" where
  "file_options doc =
     concat (map (\<lambda>(sectname, opts). map (\<lambda>(k, v). ((sectname, k), v)) (read_keys opts)) doc)"

definition read_ini :: "ini \<Rightarrow> ConfigParser \<Rightarrow> error + ConfigParser" where
  "read_ini doc p =
     (if \<not> distinct (filter (\<lambda>sectname. sectname \<noteq> default_section) (map fst doc))
      then Inl ConfigParserError
      else if \<not> distinct (map fst (file_options doc)) then Inl ConfigParserError
      else Inr (fold read_section doc p))"

text \<open>
  The value a file gives to an option of a section, and the value the parser stores for
  it (before interpolation, defaults not looked up for another section).
\<close>

definition file_value :: "ini \<Rightarrow> string \<Rightarrow> string \<Rightarrow> string option" where
  "file_value doc section key = map_of (file_options doc) (section, key)"

definition stored :: "ConfigParser \<Rightarrow> string \<Rightarrow> string \<Rightarrow> string option" where
  "stored p section key =
     (if section = default_section then map_of (defaults p) key
      else map_of (sectiondict p section) key)"

text \<open>
  The \<open>ConfigFile\<close> object with the file it is backed by. The text format of the file is
  the library's: \<open>write_ini\<close> is what \<open>ConfigParser.write\<close> puts into the file and
  \<open>parse_ini\<close> is what the library's reader makes of a file's content; both are parameters.
  \<open>backing_file\<close> is \<open>None\<close> when the file does not exist; \<open>writable\<close> tells whether the
  file can be opened for writing.
\<close>

record 'f ConfigFile =
  cfg :: ConfigParser
  backing_file :: "'f option"
  writable :: bool

definition load :: "('f \<Rightarrow> error + ini) \<Rightarrow> 'f ConfigFile \<Rightarrow> error + 'f ConfigFile" where
  "load parse_ini c =
     (case backing_file c of
        None \<Rightarrow> Inr c
      | Some content \<Rightarrow>
          (case parse_ini content of
             Inl e \<Rightarrow> Inl e
           | Inr doc \<Rightarrow>
               (case read_ini doc (cfg c) of
                  Inl e \<Rightarrow> Inl e
                | Inr p \<Rightarrow> Inr (c\<lparr>cfg := p\<rparr>))))"

definition reload :: "('f \<Rightarrow> error + ini) \<Rightarrow> 'f ConfigFile \<Rightarrow> error + 'f ConfigFile" where
  "reload parse_ini c = load parse_ini c"

definition ConfigFile_init ::
  "('f \<Rightarrow> error + ini) \<Rightarrow> 'f option \<Rightarrow> bool \<Rightarrow> error + 'f ConfigFile" where
  "ConfigFile_init parse_ini file w =
     load parse_ini \<lparr>cfg = \<lparr>defaults = [], sections = []\<rparr>, backing_file = file, writable = w\<rparr>"

text \<open>
  \<open>ConfigFile.get(section, field=None)\<close>. Without a field the section comes back as a
  dict (\<open>ConfigFile_get_dict\<close>); with one, formatted when it is not a string, the single
  value does (\<open>ConfigFile_get_value\<close>).
\<close>

definition ConfigFile_get_dict :: "'f ConfigFile \<Rightarrow> string \<Rightarrow> error + options" where
  "ConfigFile_get_dict c section =
     (if section \<noteq> default_section \<and> \<not> has_section (cfg c) section then Inl KeyError
      else section_items (cfg c) section (section_keys (cfg c) section))"

definition ConfigFile_get_value :: "'f ConfigFile \<Rightarrow> string \<Rightarrow> pyarg \<Rightarrow> error + string" where
  "ConfigFile_get_value c section field = getitem (cfg c) section (format field)"

datatype config_output = Value string | Dict options

definition ConfigFile_get :: "'f ConfigFile \<Rightarrow> string \<Rightarrow> pyarg \<Rightarrow> error + config_output" where
  "ConfigFile_get c section field =
     (case field of
        PyNone \<Rightarrow>
          (case ConfigFile_get_dict c section of Inl e \<Rightarrow> Inl e | Inr d \<Rightarrow> Inr (Dict d))
      | _ \<Rightarrow>
          (case ConfigFile_get_value c section field of
             Inl e \<Rightarrow> Inl e
           | Inr v \<Rightarrow> Inr (Value v)))"

text \<open>
  \<open>ConfigFile.set(section, field, value)\<close>: the value is formatted when it is not a
  string, the field is not (the library rejects a key that is not a string), and the
  whole store is written to the file. When the file cannot be opened, Python raises
  after the in-memory store has changed; the model returns the exception alone.
\<close>

definition ConfigFile_set ::
  "(ConfigParser \<Rightarrow> 'f) \<Rightarrow> 'f ConfigFile \<Rightarrow> string \<Rightarrow> pyarg \<Rightarrow> pyarg \<Rightarrow> error + 'f ConfigFile" where
  "ConfigFile_set write_ini c section field val =
     (let val' = format val in
      if section \<noteq> default_section \<and> \<not> has_section (cfg c) section then Inl KeyError
      else case field of
        PyStr key \<Rightarrow>
          (case setitem (cfg c) section key val' of
             Inl e \<Rightarrow> Inl e
           | Inr p \<Rightarrow>
               if writable c then Inr (c\<lparr>cfg := p, backing_file := Some (write_ini p)\<rparr>)
               else Inl OSError)
      | _ \<Rightarrow> Inl TypeError)"

section \<open>The voltage divider\<close>

text \<open>
  Modelled from the spec: \<open>qcodes.instrument_drivers.devices.VoltageDivider\<close>, which the
  repository imports and does not define. It holds a reference \<open>v1\<close> to the upstream
  parameter and the ratio \<open>division_value\<close>; \<open>get()\<close> returns the upstream value divided by
  the ratio, \<open>set(v)\<close> writes \<open>v * division_value\<close> upstream. \<open>upstream\<close> reads the
  current value of a referenced parameter.
\<close>

record 'p VoltageDivider =
  v1 :: 'p
  division_value :: real

definition VoltageDivider_get ::
  "rounding \<Rightarrow> ('p \<Rightarrow> real) \<Rightarrow> 'p VoltageDivider \<Rightarrow> error + real" where
  "VoltageDivider_get rnd upstream d = truediv rnd (upstream (v1 d)) (division_value d)"

definition VoltageDivider_set ::
  "rounding \<Rightarrow> 'p VoltageDivider \<Rightarrow> real \<Rightarrow> ('p \<Rightarrow> real) \<Rightarrow> ('p \<Rightarrow> real)" where
  "VoltageDivider_set rnd d val upstream =
     upstream (v1 d := mul rnd val (division_value d))"

section \<open>The lock-in amplifier and its derived measurements\<close>

text \<open>
  The SR830 driver is an external collaborator. Its state is what its parameters currently
  return: the numeric parameters \<open>X\<close> (in-phase component), \<open>R\<close> (magnitude) and
  \<open>amplitude\<close> (the raw excitation amplitude), the display mode of channel 1, and the
  content of the channel-1 data buffer (what \<open>ChannelBuffer.get\<close> returns).
\<close>

datatype SR830_parameter = X | R | amplitude

record SR830 =
  parameter :: "SR830_parameter \<Rightarrow> real"
  ch1_display :: string
  ch1_databuffer :: "real list"

text \<open>
  \<open>SR830_T3\<close> adds the I/V gain, the private field \<open>__acf\<close> and the divider
  \<open>amplitude_true\<close> on the raw amplitude.
\<close>

record SR830_T3 = SR830 +
  ivgain :: real
  acf :: real
  amplitude_true :: "SR830_parameter VoltageDivider"

text \<open>Calling \<open>self.amplitude_true()\<close>.\<close>

definition amplitude_true_get :: "rounding \<Rightarrow> SR830_T3 \<Rightarrow> error + real" where
  "amplitude_true_get rnd s = VoltageDivider_get rnd (parameter s) (amplitude_true s)"

text \<open>
  \<open>get_conductance(lockin, ac_excitation, iv_conv)\<close> of \<open>reload_settings.py\<close>.
  \<open>ac_excitation\<close> is a callable that the function calls once; the model takes the
  outcome of that call.
\<close>

definition get_conductance ::
  "rounding \<Rightarrow> 'a SR830_scheme \<Rightarrow> error + real \<Rightarrow> real \<Rightarrow> error + real" where
  "get_conductance rnd lockin ac_excitation iv_conv =
     (let resistance_quantum = 25818 in
      case truediv rnd (parameter lockin X) iv_conv of
        Inl e \<Rightarrow> Inl e
      | Inr i \<Rightarrow>
          (case ac_excitation of
             Inl e \<Rightarrow> Inl e
           | Inr v_sample \<Rightarrow>
               (case truediv rnd i v_sample of
                  Inl e \<Rightarrow> Inl e
                | Inr q \<Rightarrow> Inr (mul rnd q resistance_quantum))))"

text \<open>\<open>SR830_T3._get_conductance\<close>.\<close>

definition SR830_T3_get_conductance :: "rounding \<Rightarrow> SR830_T3 \<Rightarrow> error + real" where
  "SR830_T3_get_conductance rnd s =
     (let resistance_quantum = 25812.5 in
      case truediv rnd (parameter s R) (ivgain s) of
        Inl e \<Rightarrow> Inl e
      | Inr i \<Rightarrow>
          (case amplitude_true_get rnd s of
             Inl e \<Rightarrow> Inl e
           | Inr v_sample \<Rightarrow>
               (case truediv rnd i v_sample of
                  Inl e \<Rightarrow> Inl e
                | Inr q \<Rightarrow> Inr (mul rnd q resistance_quantum))))"

text \<open>\<open>SR830_T3._get_resistance\<close>.\<close>

definition SR830_T3_get_resistance :: "rounding \<Rightarrow> SR830_T3 \<Rightarrow> error + real" where
  "SR830_T3_get_resistance rnd s =
     (case truediv rnd (parameter s R) (ivgain s) of
        Inl e \<Rightarrow> Inl e
      | Inr i \<Rightarrow>
          (case amplitude_true_get rnd s of
             Inl e \<Rightarrow> Inl e
           | Inr v_sample \<Rightarrow> truediv rnd v_sample i))"

text \<open>
  \<open>ConductanceBuffer.get\<close>: the guard on the display mode, then the element-wise
  computation on the buffered array.
\<close>

definition ConductanceBuffer_get :: "rounding \<Rightarrow> SR830_T3 \<Rightarrow> error + float64 list" where
  "ConductanceBuffer_get rnd s =
     (if ch1_display s \<noteq> ''X'' then Inl ValueError
      else
        let resistance_quantum = 25818;
            xarray = map Finite (ch1_databuffer s);
            iv_conv = ivgain s
        in case amplitude_true_get rnd s of
             Inl e \<Rightarrow> Inl e
           | Inr ac_excitation \<Rightarrow>
               Inr (map (\<lambda>x. np_mul rnd (np_truediv rnd (np_truediv rnd x iv_conv) ac_excitation)
                                  resistance_quantum) xarray))"

text \<open>The property \<open>acfactor\<close> of \<open>SR830_T3\<close>: its getter and its setter.\<close>

definition acfactor :: "SR830_T3 \<Rightarrow> real" where
  "acfactor s = acf s"

definition set_acfactor :: "real \<Rightarrow> SR830_T3 \<Rightarrow> SR830_T3" where
  "set_acfactor a s =
     s\<lparr>acf := a, amplitude_true := (amplitude_true s)\<lparr>division_value := a\<rparr>\<rparr>"

text \<open>The invariant that ties the private field to the ratio of the divider.\<close>

definition acfactor_invariant :: "SR830_T3 \<Rightarrow> bool" where
  "acfactor_invariant s = (acfactor s = division_value (amplitude_true s))"

text \<open>
  \<open>SR830_T3.__init__\<close>, on the state \<open>hw\<close> of the underlying SR830. \<open>py_float\<close> is
  Python's \<open>float()\<close> on a string, \<open>None\<close> where it raises \<open>ValueError\<close>.
\<close>

definition SR830_T3_init ::
  "(string \<Rightarrow> real option) \<Rightarrow> SR830 \<Rightarrow> 'f ConfigFile \<Rightarrow> error + SR830_T3" where
  "SR830_T3_init py_float hw config =
     (case ConfigFile_get_value config ''Gain settings'' (PyStr ''iv gain'') of
        Inl e \<Rightarrow> Inl e
      | Inr txt \<Rightarrow>
          (case py_float txt of
             None \<Rightarrow> Inl ValueError
           | Some gain \<Rightarrow>
               let s = \<lparr>parameter = parameter hw, ch1_display = ch1_display hw,
                        ch1_databuffer = ch1_databuffer hw,
                        ivgain = gain, acf = 1,
                        amplitude_true = \<lparr>v1 = amplitude, division_value = 1\<rparr>\<rparr>
               in Inr (s\<lparr>amplitude_true := \<lparr>v1 = amplitude, division_value = acfactor s\<rparr>\<rparr>)))"

section \<open>Unused QDac channels\<close>

text \<open>
  \<open>used_channels()\<close>: the keys of the section of channel labels as sorted integers.
  \<open>py_int\<close> is Python's \<open>int()\<close> on a string, \<open>None\<close> where it raises \<open>ValueError\<close>.
\<close>

fun ints_of :: "(string \<Rightarrow> int option) \<Rightarrow> string list \<Rightarrow> error + int list" where
  "ints_of py_int [] = Inr []"
| "ints_of py_int (k # ks) =
     (case py_int k of
        None \<Rightarrow> Inl ValueError
      | Some i \<Rightarrow> (case ints_of py_int ks of Inl e \<Rightarrow> Inl e | Inr js \<Rightarrow> Inr (i # js)))"

definition used_channels :: "(string \<Rightarrow> int option) \<Rightarrow> 'f ConfigFile \<Rightarrow> error + int list" where
  "used_channels py_int configs =
     (case ConfigFile_get_dict configs ''QDac Channel Labels'' of
        Inl e \<Rightarrow> Inl e
      | Inr l_chs \<Rightarrow>
          (case ints_of py_int (map fst l_chs) of
             Inl e \<Rightarrow> Inl e
           | Inr keys \<Rightarrow> Inr (sort keys)))"

text \<open>
  The loop of \<open>check_unused_qdac_channels\<close>. \<open>latest\<close> maps the name of a parameter of the
  QDac to the value \<open>get_latest()\<close> returns after \<open>qdac._get_status()\<close>. The result holds
  the channels whose parameter was read and the warnings logged, each with the channel and
  its voltage, in order.
\<close>

fun check_channels ::
  "(string \<rightharpoonup> real) \<Rightarrow> nat list \<Rightarrow> error + (nat list \<times> (nat \<times> real) list)" where
  "check_channels latest [] = Inr ([], [])"
| "check_channels latest (ch # chs) =
     (case latest (''ch'' @ format_02 ch @ ''_v'') of
        None \<Rightarrow> Inl KeyError
      | Some temp_v \<Rightarrow>
          (case check_channels latest chs of
             Inl e \<Rightarrow> Inl e
           | Inr (inspected, warnings) \<Rightarrow>
               Inr (ch # inspected,
                    if temp_v > 0 then (ch, temp_v) # warnings else warnings)))"

definition check_unused_qdac_channels ::
  "(string \<Rightarrow> int option) \<Rightarrow> 'f ConfigFile \<Rightarrow> (string \<rightharpoonup> real) \<Rightarrow>
   error + (nat list \<times> (nat \<times> real) list)" where
  "check_unused_qdac_channels py_int configs latest =
     (case used_channels py_int configs of
        Inl e \<Rightarrow> Inl e
      | Inr used \<Rightarrow> check_channels latest (filter (\<lambda>el. int el \<notin> set used) [1..<48]))"

section \<open>Channel ranges\<close>

text \<open>
  The objects of a channel dictionary live in a store, addressed by \<open>nat\<close>: each is a
  qcodes parameter with its validator \<open>vals\<close>, and a \<open>VoltageDivider\<close> also has its
  upstream reference and ratio. The type \<open>'v\<close> of validators and the constructor
  \<open>Numbers\<close> (which may raise) belong to qcodes and are parameters.
\<close>

record 'v Parameter =
  vals :: 'v
  divider :: "nat VoltageDivider option"

type_synonym 'v store = "nat \<Rightarrow> 'v Parameter"

definition set_validator :: "nat \<Rightarrow> 'v \<Rightarrow> 'v store \<Rightarrow> 'v store" where
  "set_validator a v h = h(a := (h a)\<lparr>vals := v\<rparr>)"

text \<open>
  The parameter a channel's validator is installed on: the upstream parameter of a
  \<open>VoltageDivider\<close>, the channel itself otherwise. \<open>targets\<close> lists them for the items of
  a channel dictionary, and \<open>configured\<close> keeps the items whose identifier has an entry
  in the dict of ranges.
\<close>

definition target :: "'v store \<Rightarrow> nat \<Rightarrow> nat" where
  "target h channel = (case divider (h channel) of Some d \<Rightarrow> v1 d | None \<Rightarrow> channel)"

definition targets :: "'v store \<Rightarrow> (int \<times> nat) list \<Rightarrow> nat list" where
  "targets h dict = map (\<lambda>(chan_id, channel). target h channel) dict"

definition configured :: "options \<Rightarrow> (int \<times> nat) list \<Rightarrow> (int \<times> nat) list" where
  "configured ranges dict =
     filter (\<lambda>(chan_id, channel). map_of ranges (str_int chan_id) \<noteq> None) dict"



section \<open>The cutters of the Decadac\<close>

text \<open>
  \<open>self.channels[i].volt.get()\<close>: the voltage of the channel at index \<open>i\<close>, counted
  from the end when \<open>i\<close> is negative.
\<close>

definition channel_volt :: "real list \<Rightarrow> int \<Rightarrow> error + real" where
  "channel_volt channels i =
     (if 0 \<le> i \<and> i < int (length channels) then Inr (channels ! nat i)
      else if i < 0 \<and> - int (length channels) \<le> i
      then Inr (channels ! nat (int (length channels) + i))
      else Inl IndexError)"

text \<open>
  \<open>Decadac_T3.get_cutters\<close>. The result is what was printed and what was returned:
  \<open>None\<close> is Python's \<open>None\<close>, the value of a function that ends without \<open>return\<close>.
\<close>

definition get_cutters ::
  "rounding \<Rightarrow> (string \<Rightarrow> int option) \<Rightarrow> 'f ConfigFile \<Rightarrow> real list \<Rightarrow>
   error + (string list \<times> real option)" where
  "get_cutters rnd py_int config channels =
     (case ConfigFile_get_dict config ''Channel Parameters'' of
        Inl e \<Rightarrow> Inl e
      | Inr dic \<Rightarrow>
          (case map_of dic ''left cutter'' of
             None \<Rightarrow> Inl KeyError
           | Some l \<Rightarrow>
               (case py_int l of
                  None \<Rightarrow> Inl ValueError
                | Some li \<Rightarrow>
                    (case channel_volt channels li of
                       Inl e \<Rightarrow> Inl e
                     | Inr vleft \<Rightarrow>
                         (case map_of dic ''right cutter'' of
                            None \<Rightarrow> Inl KeyError
                          | Some r \<Rightarrow>
                              (case py_int r of
                                 None \<Rightarrow> Inl ValueError
                               | Some ri \<Rightarrow>
                                   (case channel_volt channels ri of
                                      Inl e \<Rightarrow> Inl e
                                    | Inr vright \<Rightarrow>
                                        if \<bar>sub rnd vleft vright\<bar> > rnd (5 / 100)
                                        then Inr ([''Error! Left and right cutter are not the same!''],
                                                  None)
                                        else Inr ([], Some vleft))))))))"

section \<open>Properties\<close>

text \<open>
  C1 (as amended). With a nonzero gain and a nonzero excitation voltage, the closure-based
  \<open>get_conductance\<close> returns \<open>(X / G) / V_exc * 25818\<close>, and
  \<open>ConductanceBuffer.get\<close> returns it for every element of the buffer when channel 1
  displays \<open>X\<close>; \<open>SR830_T3._get_conductance\<close> returns
  \<open>(R / G) / V_exc * 25812.5\<close>, from the magnitude reading \<open>R\<close>.
\<close>

theorem conductance_paths:
  assumes "iv_conv \<noteq> 0" and "v_exc \<noteq> 0"
    and "ivgain s = iv_conv" and "amplitude_true_get rnd s = Inr v_exc"
  shows "get_conductance rnd lockin (Inr v_exc) iv_conv =
           Inr (rnd (rnd (rnd (parameter lockin X / iv_conv) / v_exc) * 25818))
       \<and> SR830_T3_get_conductance rnd s =
           Inr (rnd (rnd (rnd (parameter s R / iv_conv) / v_exc) * 25812.5))
       \<and> (ch1_display s = ''X'' \<longrightarrow>
            ConductanceBuffer_get rnd s =
              Inr (map (\<lambda>x. Finite (rnd (rnd (rnd (x / iv_conv) / v_exc) * 25818)))
                       (ch1_databuffer s)))"
  using assms
  by (simp add: get_conductance_def SR830_T3_get_conductance_def ConductanceBuffer_get_def
      truediv_def mul_def np_mul_def np_truediv_def Let_def)

theorem conductance_paths_witness:
  "get_conductance (\<lambda>x. x) \<lparr>parameter = (\<lambda>p. 1), ch1_display = ''X'', ch1_databuffer = [2]\<rparr> (Inr 2) 4 = Inr (25818 / 8)
  \<and> SR830_T3_get_conductance (\<lambda>x. x) \<lparr>parameter = (\<lambda>p. 1), ch1_display = ''X'', ch1_databuffer = [2],
          ivgain = 4, acf = 1/2, amplitude_true = \<lparr>v1 = amplitude, division_value = 1/2\<rparr>\<rparr> = Inr (25812.5 / 8)
  \<and> ConductanceBuffer_get (\<lambda>x. x) \<lparr>parameter = (\<lambda>p. 1), ch1_display = ''X'', ch1_databuffer = [2],
          ivgain = 4, acf = 1/2, amplitude_true = \<lparr>v1 = amplitude, division_value = 1/2\<rparr>\<rparr> = Inr [Finite (25818 / 4)]"
  using conductance_paths [of 4 2 "\<lparr>parameter = (\<lambda>p. 1), ch1_display = ''X'', ch1_databuffer = [2],
          ivgain = 4, acf = 1/2, amplitude_true = \<lparr>v1 = amplitude, division_value = 1/2\<rparr>\<rparr>" "\<lambda>x. x"
       "\<lparr>parameter = (\<lambda>p. 1), ch1_display = ''X'', ch1_databuffer = [2]\<rparr>"]
  by (simp add: amplitude_true_get_def VoltageDivider_get_def truediv_def)

theorem conductance_paths_counterexample:
  "SR830_T3_get_conductance (\<lambda>x. x)
     \<lparr>parameter = (\<lambda>p. 1), ch1_display = ''X'', ch1_databuffer = [],
      ivgain = 1, acf = 1, amplitude_true = \<lparr>v1 = amplitude, division_value = 1\<rparr>\<rparr>
   = Inr 25812.5
   \<and> ((1 :: real) / 1) / 1 * 25818 \<noteq> 25812.5
   \<and> SR830_T3_get_conductance (\<lambda>x. x)
     \<lparr>parameter = (\<lambda>p. if p = X then 1 else 2), ch1_display = ''X'', ch1_databuffer = [],
      ivgain = 1, acf = 1, amplitude_true = \<lparr>v1 = amplitude, division_value = 2\<rparr>\<rparr>
   = Inr 51625
   \<and> ((1 :: real) / 1) / 1 * 25818 \<noteq> 51625"
  by (simp add: SR830_T3_get_conductance_def amplitude_true_get_def VoltageDivider_get_def
      truediv_def mul_def Let_def)

text \<open>
  C2 (as amended). \<open>ConductanceBuffer.get\<close> raises \<open>ValueError\<close> whenever channel 1
  does not display \<open>X\<close>. The two scalar paths read their signal from the lock-in
  directly and never consult the display mode: their outcome is the same under every
  display mode.
\<close>

theorem display_guard:
  "(ch1_display s \<noteq> ''X'' \<longrightarrow> ConductanceBuffer_get rnd s = Inl ValueError)
   \<and> SR830_T3_get_conductance rnd (s\<lparr>ch1_display := d\<rparr>) = SR830_T3_get_conductance rnd s
   \<and> get_conductance rnd (lockin\<lparr>ch1_display := d\<rparr>) ac_excitation iv_conv =
       get_conductance rnd lockin ac_excitation iv_conv"
  unfolding ConductanceBuffer_get_def SR830_T3_get_conductance_def get_conductance_def
    amplitude_true_get_def VoltageDivider_get_def
  by (simp cong: sum.case_cong)

theorem display_guard_witness:
  "ConductanceBuffer_get (\<lambda>x. x)
     \<lparr>parameter = (\<lambda>p. 1), ch1_display = ''R'', ch1_databuffer = [1],
      ivgain = 1, acf = 1, amplitude_true = \<lparr>v1 = amplitude, division_value = 1\<rparr>\<rparr>
   = Inl ValueError"
  using display_guard [of "\<lparr>parameter = (\<lambda>p. 1), ch1_display = ''R'', ch1_databuffer = [1],
      ivgain = 1, acf = 1, amplitude_true = \<lparr>v1 = amplitude, division_value = 1\<rparr>\<rparr>" "\<lambda>x. x"
      "''X''" "\<lparr>parameter = (\<lambda>p. 1), ch1_display = ''R'', ch1_databuffer = [1]\<rparr>" "Inr 1" 1]
  by simp

theorem display_guard_counterexample:
  "ch1_display \<lparr>parameter = (\<lambda>p. 1), ch1_display = ''R'', ch1_databuffer = [1],
      ivgain = 1, acf = 1, amplitude_true = \<lparr>v1 = amplitude, division_value = 1\<rparr>\<rparr> \<noteq> ''X''
   \<and> SR830_T3_get_conductance (\<lambda>x. x)
     \<lparr>parameter = (\<lambda>p. 1), ch1_display = ''R'', ch1_databuffer = [1],
      ivgain = 1, acf = 1, amplitude_true = \<lparr>v1 = amplitude, division_value = 1\<rparr>\<rparr>
     = Inr 25812.5
   \<and> get_conductance (\<lambda>x. x)
     \<lparr>parameter = (\<lambda>p. 1), ch1_display = ''R'', ch1_databuffer = [1]\<rparr> (Inr 1) 1
     = Inr 25818"
  by (simp add: SR830_T3_get_conductance_def get_conductance_def amplitude_true_get_def
      VoltageDivider_get_def truediv_def mul_def Let_def)

text \<open>
  Two facts about a rounding with relative error at most one half, for C3: the product of
  the resistance and the conductance computed by \<open>SR830_T3\<close> stays far above 1.
\<close>

lemma accurate_half:
  assumes "accurate (1 / 2) rnd"
  shows "\<bar>x\<bar> / 2 \<le> \<bar>rnd x\<bar>" and "\<bar>rnd x\<bar> \<le> 3 * \<bar>x\<bar> / 2"
proof -
  from assms have "\<bar>rnd x - x\<bar> \<le> \<bar>x\<bar> / 2"
    by (simp add: accurate_def)
  then show "\<bar>x\<bar> / 2 \<le> \<bar>rnd x\<bar>" and "\<bar>rnd x\<bar> \<le> 3 * \<bar>x\<bar> / 2"
    by linarith+
qed

lemma scaled_product:
  fixes a b k :: real
  assumes "a * b = 1"
  shows "(a / 2) * (b * (k / 4)) = k / 8"
proof -
  have "(a / 2) * (b * (k / 4)) = (a * b) * (k / 8)"
    by simp
  then show ?thesis
    using assms by simp
qed

lemma product_large:
  assumes acc: "accurate (1 / 2) rnd" and "i \<noteq> 0" and "v \<noteq> 0"
  shows "3226 \<le> \<bar>rnd (v / i)\<bar> * \<bar>rnd (rnd (i / v) * 25812.5)\<bar>"
proof -
  have r: "\<bar>v / i\<bar> / 2 \<le> \<bar>rnd (v / i)\<bar>"
    by (rule accurate_half [OF acc])
  have q: "\<bar>i / v\<bar> / 2 \<le> \<bar>rnd (i / v)\<bar>"
    by (rule accurate_half [OF acc])
  have "\<bar>rnd (i / v) * 25812.5\<bar> / 2 \<le> \<bar>rnd (rnd (i / v) * 25812.5)\<bar>"
    by (rule accurate_half [OF acc])
  then have g: "\<bar>i / v\<bar> * (25812.5 / 4) \<le> \<bar>rnd (rnd (i / v) * 25812.5)\<bar>"
    using q by (simp add: abs_mult)
  have "(\<bar>v / i\<bar> / 2) * (\<bar>i / v\<bar> * (25812.5 / 4)) \<le>
        \<bar>rnd (v / i)\<bar> * \<bar>rnd (rnd (i / v) * 25812.5)\<bar>"
    by (rule mult_mono [OF r g]) simp_all
  moreover have "v / i * (i / v) = 1"
    using assms by simp
  then have "\<bar>v / i\<bar> * \<bar>i / v\<bar> = 1"
    by (simp only: abs_mult [symmetric] abs_one)
  then have "(\<bar>v / i\<bar> / 2) * (\<bar>i / v\<bar> * (25812.5 / 4)) = 25812.5 / 8"
    by (rule scaled_product)
  ultimately show ?thesis by simp
qed

text \<open>
  C3 (as amended). A resistance read returns \<open>V_exc / (R / G)\<close>, computed directly from
  the magnitude reading \<open>R\<close> of the lock-in (not the in-phase signal \<open>X\<close>), the gain and
  the excitation voltage, and not from the conductance. Whenever the conductance read of
  the same state returns \<open>g\<close>, the resistance is neither \<open>1 / g\<close> nor its rounding, for
  every rounding with relative error at most one half.
\<close>

theorem resistance_direct:
  assumes "ivgain s \<noteq> 0" and "amplitude_true_get rnd s = Inr v_exc"
    and "rnd (parameter s R / ivgain s) \<noteq> 0"
  shows "SR830_T3_get_resistance rnd s = Inr (rnd (v_exc / rnd (parameter s R / ivgain s)))
       \<and> (accurate (1 / 2) rnd \<longrightarrow>
            (\<forall>g. SR830_T3_get_conductance rnd s = Inr g \<longrightarrow>
                 g \<noteq> 0
               \<and> rnd (v_exc / rnd (parameter s R / ivgain s)) \<noteq> 1 / g
               \<and> rnd (v_exc / rnd (parameter s R / ivgain s)) \<noteq> rnd (1 / g)))"
proof (intro conjI impI allI)
  show "SR830_T3_get_resistance rnd s = Inr (rnd (v_exc / rnd (parameter s R / ivgain s)))"
    using assms by (simp add: SR830_T3_get_resistance_def truediv_def)
next
  fix g
  assume acc: "accurate (1 / 2) rnd" and "SR830_T3_get_conductance rnd s = Inr g"
  define i where "i = rnd (parameter s R / ivgain s)"
  define r where "r = rnd (v_exc / i)"
  have v: "v_exc \<noteq> 0" and g: "g = rnd (rnd (i / v_exc) * 25812.5)"
    using assms \<open>SR830_T3_get_conductance rnd s = Inr g\<close>
    by (auto simp: SR830_T3_get_conductance_def truediv_def mul_def i_def Let_def
        split: if_splits)
  have i: "i \<noteq> 0"
    using assms by (simp add: i_def)
  have big: "3226 \<le> \<bar>r\<bar> * \<bar>g\<bar>"
    unfolding r_def g by (rule product_large [OF acc i v])
  then have g0: "g \<noteq> 0"
    by auto
  have "r \<noteq> 1 / g"
  proof
    assume "r = 1 / g"
    then have "\<bar>r\<bar> * \<bar>g\<bar> = 1"
      using g0 by (simp add: abs_mult [symmetric])
    with big show False by simp
  qed
  moreover have "r \<noteq> rnd (1 / g)"
  proof
    assume "r = rnd (1 / g)"
    then have "\<bar>r\<bar> \<le> 3 * \<bar>1 / g\<bar> / 2"
      using accurate_half(2) [OF acc, of "1 / g"] by simp
    then have "\<bar>r\<bar> * \<bar>g\<bar> \<le> (3 * \<bar>1 / g\<bar> / 2) * \<bar>g\<bar>"
      by (rule mult_right_mono) simp
    also have "\<dots> = 3 / 2"
      using g0 by simp
    finally show False
      using big by simp
  qed
  ultimately show "g \<noteq> 0" 
    and "rnd (v_exc / rnd (parameter s R / ivgain s)) \<noteq> 1 / g"
    and "rnd (v_exc / rnd (parameter s R / ivgain s)) \<noteq> rnd (1 / g)"
    using g0 by (simp_all add: r_def i_def)
qed

theorem resistance_direct_witness:
  "SR830_T3_get_resistance (\<lambda>x. x)
     \<lparr>parameter = (\<lambda>p. 2), ch1_display = ''X'', ch1_databuffer = [],
      ivgain = 1, acf = 2, amplitude_true = \<lparr>v1 = amplitude, division_value = 2\<rparr>\<rparr>
   = Inr (1 / 2)
   \<and> SR830_T3_get_conductance (\<lambda>x. x)
     \<lparr>parameter = (\<lambda>p. 2), ch1_display = ''X'', ch1_databuffer = [],
      ivgain = 1, acf = 2, amplitude_true = \<lparr>v1 = amplitude, division_value = 2\<rparr>\<rparr>
   = Inr 51625
   \<and> (1 / 2 :: real) \<noteq> 1 / 51625"
  using resistance_direct [of "\<lparr>parameter = (\<lambda>p. 2), ch1_display = ''X'', ch1_databuffer = [],
      ivgain = 1, acf = 2, amplitude_true = \<lparr>v1 = amplitude, division_value = 2\<rparr>\<rparr>" "\<lambda>x. x" 1]
  by (simp add: amplitude_true_get_def VoltageDivider_get_def truediv_def accurate_def
      SR830_T3_get_conductance_def mul_def Let_def)

theorem resistance_direct_counterexample:
  "SR830_T3_get_resistance (\<lambda>x. x)
     \<lparr>parameter = (\<lambda>p. case p of X \<Rightarrow> 3 | R \<Rightarrow> 5 | amplitude \<Rightarrow> 15),
      ch1_display = ''X'', ch1_databuffer = [],
      ivgain = 1, acf = 1, amplitude_true = \<lparr>v1 = amplitude, division_value = 1\<rparr>\<rparr>
   = Inr 3
   \<and> (15 :: real) / (3 / 1) \<noteq> 3"
  by (simp add: SR830_T3_get_resistance_def amplitude_true_get_def VoltageDivider_get_def
      truediv_def)

text \<open>
  Error analysis for C4: how \<open>near\<close> propagates through a rounding, a division and a
  multiplication by a constant.
\<close>

lemma near_rnd:
  assumes acc: "accurate u rnd" and c: "0 < c" and e: "0 \<le> e" "e \<le> 1" and u: "0 \<le> u" "u \<le> 1"
    and y: "near e c y"
  shows "near (e + 2 * u) c (rnd y)"
proof -
  from y have lo: "c * (1 - e) \<le> y" and hi: "y \<le> c * (1 + e)"
    by (simp_all add: near_def)
  have y0: "0 \<le> y"
    using lo c e by (meson mult_nonneg_nonneg diff_ge_0_iff_ge less_imp_le order_trans)
  from acc have "\<bar>rnd y - y\<bar> \<le> u * \<bar>y\<bar>"
    by (simp add: accurate_def)
  with y0 have r: "y - u * y \<le> rnd y" "rnd y \<le> y + u * y"
    by (simp_all add: abs_le_iff)
  have "u * y \<le> u * (c * (1 + e))"
    using hi u by (simp add: mult_left_mono)
  also have "\<dots> \<le> u * (c * 2)"
    using e u c by (simp add: mult_left_mono)
  finally have uy: "u * y \<le> 2 * u * c"
    by simp
  have "rnd y \<le> c * (1 + e) + 2 * u * c"
    using r(2) hi uy by linarith
  moreover have "c * (1 - e) - 2 * u * c \<le> rnd y"
    using r(1) lo uy by linarith
  ultimately show ?thesis
    by (simp add: near_def algebra_simps)
qed

lemma near_div:
  assumes a: "0 < a" and b: "0 < b" and e1: "0 \<le> e1" "e1 \<le> 1" and e2: "0 \<le> e2" "e2 \<le> 1 / 2"
    and x: "near e1 a x" and y: "near e2 b y"
  shows "near (e1 + 4 * e2) (a / b) (x / y)"
proof -
  from x have xlo: "a * (1 - e1) \<le> x" and xhi: "x \<le> a * (1 + e1)"
    by (simp_all add: near_def)
  from y have ylo: "b * (1 - e2) \<le> y" and yhi: "y \<le> b * (1 + e2)"
    by (simp_all add: near_def)
  have bl: "0 < b * (1 - e2)"
    using b e2 by simp
  then have y0: "0 < y"
    using ylo by linarith
  have x0: "0 \<le> x"
    using xlo a e1 by (meson mult_nonneg_nonneg diff_ge_0_iff_ge less_imp_le order_trans)
  have "x / y \<le> a * (1 + e1) / (b * (1 - e2))"
    by (rule frac_le) (use x0 xhi bl ylo a e1 in auto)
  also have "\<dots> = (a / b) * ((1 + e1) / (1 - e2))"
    by simp
  also have "\<dots> \<le> (a / b) * (1 + (e1 + 4 * e2))"
  proof (rule mult_left_mono)
    have "(1 + e1) \<le> (1 + (e1 + 4 * e2)) * (1 - e2)"
    proof -
      have "(1 + (e1 + 4 * e2)) * (1 - e2) - (1 + e1) = e2 * (3 - e1 - 4 * e2)"
        by (simp add: algebra_simps)
      moreover have "0 \<le> e2 * (3 - e1 - 4 * e2)"
        using e1 e2 by (intro mult_nonneg_nonneg) auto
      ultimately show ?thesis by linarith
    qed
    then show "(1 + e1) / (1 - e2) \<le> 1 + (e1 + 4 * e2)"
      using e2 by (simp add: pos_divide_le_eq)
    show "0 \<le> a / b"
      using a b by simp
  qed
  finally have up: "x / y \<le> (a / b) * (1 + (e1 + 4 * e2))" .
  have yh: "0 < b * (1 + e2)"
    using b e2 by (simp add: add_pos_nonneg)
  have "(a / b) * (1 - (e1 + 4 * e2)) \<le> (a / b) * ((1 - e1) / (1 + e2))"
  proof (rule mult_left_mono)
    have "(1 - (e1 + 4 * e2)) * (1 + e2) \<le> 1 - e1"
    proof -
      have "(1 - e1) - (1 - (e1 + 4 * e2)) * (1 + e2) = e2 * (3 + e1 + 4 * e2)"
        by (simp add: algebra_simps)
      moreover have "0 \<le> e2 * (3 + e1 + 4 * e2)"
        using e1 e2 by (intro mult_nonneg_nonneg) auto
      ultimately show ?thesis by linarith
    qed
    then show "1 - (e1 + 4 * e2) \<le> (1 - e1) / (1 + e2)"
      using e2 by (simp add: pos_le_divide_eq add_pos_nonneg)
    show "0 \<le> a / b"
      using a b by simp
  qed
  also have "\<dots> = a * (1 - e1) / (b * (1 + e2))"
    by simp
  also have "\<dots> \<le> x / y"
    by (rule frac_le) (use xlo x0 y0 yhi a e1 in auto)
  finally show ?thesis
    using up by (simp add: near_def)
qed

lemma near_literal: "0 \<le> c \<Longrightarrow> near 0 c c"
  by (simp add: near_def)

lemma near_times:
  assumes "0 < k" and "near e c y"
  shows "near e (c * k) (y * k)"
  using assms mult_right_mono [of "c * (1 - e)" y k] mult_right_mono [of y "c * (1 + e)" k]
  by (simp add: near_def mult_ac)

lemma near_abs:
  assumes "near e c y" and "0 \<le> c" and "e \<le> t"
  shows "\<bar>y - c\<bar> \<le> t * c"
proof -
  have "e * c \<le> t * c"
    using assms by (simp add: mult_right_mono)
  moreover have "c - e * c \<le> y" "y \<le> c + e * c"
    using assms(1) by (simp_all add: near_def algebra_simps)
  ultimately show ?thesis
    by (simp add: abs_le_iff)
qed

text \<open>
  C4 (as amended). For \<open>X = 1e-6\<close>, \<open>G = 1e7\<close> and \<open>V_exc = 1e-3\<close>, each the float
  nearest to the decimal, and every rounding with relative error at most \<open>2 ^ 53\<close>
  reciprocal, the conductance computation returns a value within relative distance
  \<open>1e-6\<close> of \<open>(1e-6 / 1e7) / 1e-3 * 25818 = 2.5818e-6\<close>; that value is below
  \<open>2.58e-5\<close>, a hundredth of \<open>2.58e-3\<close>.
\<close>

theorem example_conductance:
  assumes acc: "accurate (1 / 2 ^ 53) rnd"
    and x: "parameter lockin X = rnd (1 / 10 ^ 6)"
  shows "\<exists>g. get_conductance rnd lockin (Inr (rnd (1 / 10 ^ 3))) (rnd (10 ^ 7)) = Inr g
           \<and> \<bar>g - 25818 / 10 ^ 10\<bar> \<le> (1 / 10 ^ 6) * (25818 / 10 ^ 10)
           \<and> g < 258 / 10 ^ 7"
proof -
  define u :: real where "u = 1 / 2 ^ 53"
  have u: "0 \<le> u" "u \<le> 1" "24 * u \<le> 1 / 10 ^ 6"
    by (simp_all add: u_def)
  have acc': "accurate u rnd"
    using acc by (simp add: u_def)
  have nx: "near (2 * u) (1 / 10 ^ 6) (rnd (1 / 10 ^ 6))"
    using near_rnd [OF acc' _ _ _ u(1,2) near_literal, of "1 / 10 ^ 6"] by simp
  have ng: "near (2 * u) (10 ^ 7) (rnd (10 ^ 7))"
    using near_rnd [OF acc' _ _ _ u(1,2) near_literal, of "10 ^ 7"] by simp
  have nv: "near (2 * u) (1 / 10 ^ 3) (rnd (1 / 10 ^ 3))"
    using near_rnd [OF acc' _ _ _ u(1,2) near_literal, of "1 / 10 ^ 3"] by simp
  have g0: "rnd (10 ^ 7) \<noteq> 0"
    using ng u by (auto simp: near_def u_def)
  have v0: "rnd (1 / 10 ^ 3) \<noteq> 0"
    using nv u by (auto simp: near_def u_def)
  have "near (2 * u + 4 * (2 * u)) ((1 / 10 ^ 6) / 10 ^ 7) (rnd (1 / 10 ^ 6) / rnd (10 ^ 7))"
    by (rule near_div [OF _ _ _ _ _ _ nx ng]) (simp_all add: u_def)
  then have n1: "near (10 * u) (1 / 10 ^ 13) (rnd (1 / 10 ^ 6) / rnd (10 ^ 7))"
    by simp
  have ni: "near (10 * u + 2 * u) (1 / 10 ^ 13) (rnd (rnd (1 / 10 ^ 6) / rnd (10 ^ 7)))"
    by (rule near_rnd [OF acc' _ _ _ u(1,2) n1]) (simp_all add: u_def)
  have "near (12 * u + 4 * (2 * u)) ((1 / 10 ^ 13) / (1 / 10 ^ 3))
          (rnd (rnd (1 / 10 ^ 6) / rnd (10 ^ 7)) / rnd (1 / 10 ^ 3))"
    by (rule near_div [OF _ _ _ _ _ _ _ nv]) (use ni in \<open>simp_all add: u_def\<close>)
  then have n2: "near (20 * u) (1 / 10 ^ 10)
          (rnd (rnd (1 / 10 ^ 6) / rnd (10 ^ 7)) / rnd (1 / 10 ^ 3))"
    by simp
  have "near (20 * u + 2 * u) (1 / 10 ^ 10)
          (rnd (rnd (rnd (1 / 10 ^ 6) / rnd (10 ^ 7)) / rnd (1 / 10 ^ 3)))"
    by (rule near_rnd [OF acc' _ _ _ u(1,2) n2]) (simp_all add: u_def)
  then have "near (22 * u) (1 / 10 ^ 10)
          (rnd (rnd (rnd (1 / 10 ^ 6) / rnd (10 ^ 7)) / rnd (1 / 10 ^ 3)))"
    by simp
  then have n3: "near (22 * u) (1 / 10 ^ 10 * 25818)
          (rnd (rnd (rnd (1 / 10 ^ 6) / rnd (10 ^ 7)) / rnd (1 / 10 ^ 3)) * 25818)"
    by (rule near_times [rotated]) simp
  have "near (22 * u + 2 * u) (1 / 10 ^ 10 * 25818)
          (rnd (rnd (rnd (rnd (1 / 10 ^ 6) / rnd (10 ^ 7)) / rnd (1 / 10 ^ 3)) * 25818))"
    by (rule near_rnd [OF acc' _ _ _ u(1,2) n3]) (simp_all add: u_def)
  then have fin: "near (24 * u) (25818 / 10 ^ 10)
          (rnd (rnd (rnd (rnd (1 / 10 ^ 6) / rnd (10 ^ 7)) / rnd (1 / 10 ^ 3)) * 25818))"
    by simp
  define g where "g = rnd (rnd (rnd (rnd (1 / 10 ^ 6) / rnd (10 ^ 7)) / rnd (1 / 10 ^ 3)) * 25818)"
  have val: "get_conductance rnd lockin (Inr (rnd (1 / 10 ^ 3))) (rnd (10 ^ 7)) = Inr g"
    using g0 v0 x by (simp add: get_conductance_def truediv_def mul_def g_def Let_def)
  have close: "\<bar>g - 25818 / 10 ^ 10\<bar> \<le> (1 / 10 ^ 6) * (25818 / 10 ^ 10)"
    using near_abs [OF fin _ u(3)] by (simp add: g_def)
  have "g - 25818 / 10 ^ 10 \<le> (1 / 10 ^ 6) * (25818 / 10 ^ 10)"
    by (rule order_trans [OF abs_ge_self close])
  then have "g < 258 / 10 ^ 7"
    by simp
  with val close show ?thesis
    by blast
qed


theorem example_conductance_witness:
  "accurate (1 / 2 ^ 53) (\<lambda>x. x)
   \<and> get_conductance (\<lambda>x. x)
        \<lparr>parameter = (\<lambda>p. 1 / 10 ^ 6), ch1_display = ''X'', ch1_databuffer = []\<rparr>
        (Inr (1 / 10 ^ 3)) (10 ^ 7) = Inr (25818 / 10 ^ 10)"
  using example_conductance [of "\<lambda>x. x"
      "\<lparr>parameter = (\<lambda>p. 1 / 10 ^ 6), ch1_display = ''X'', ch1_databuffer = []\<rparr>"]
  by (simp add: accurate_def get_conductance_def truediv_def mul_def)

theorem example_conductance_counterexample:
  "get_conductance (\<lambda>x. x)
        \<lparr>parameter = (\<lambda>p. 1 / 10 ^ 6), ch1_display = ''X'', ch1_databuffer = []\<rparr>
        (Inr (1 / 10 ^ 3)) (10 ^ 7) = Inr (25818 / 10 ^ 10)
   \<and> \<not> \<bar>(25818 / 10 ^ 10 :: real) - 258 / 10 ^ 5\<bar> \<le> (1 / 2) * (258 / 10 ^ 5)"
  by (simp add: get_conductance_def truediv_def mul_def)

text \<open>A value without a percent sign is its own interpolation.\<close>

lemma interpolate_some_plain:
  "CHR ''%'' \<notin> set val \<Longrightarrow> depth \<le> 10 \<Longrightarrow> interpolate_some m depth val = Inr val"
proof (induction val)
  case Nil
  then show ?case
    by (subst interpolate_some.simps) simp
next
  case (Cons c cs)
  then have "interpolate_some m depth cs = Inr cs" and "c \<noteq> CHR ''%''"
    by auto
  with Cons.prems show ?case
    by (subst interpolate_some.simps) simp
qed

lemma before_get_plain: "CHR ''%'' \<notin> set val \<Longrightarrow> before_get m val = Inr val"
  by (simp add: before_get_def interpolate_some_plain)

text \<open>
  C10. After construction \<open>acfactor\<close> equals the \<open>division_value\<close> of
  \<open>amplitude_true\<close> (both are 1); every assignment to \<open>acfactor\<close> sets both, so the
  invariant holds again, and the next get and set of \<open>amplitude_true\<close> divide and multiply
  by the assigned ratio.
\<close>

theorem acfactor_synchronised:
  "(SR830_T3_init py_float hw config = Inr s \<longrightarrow> acfactor_invariant s \<and> acfactor s = 1)
   \<and> acfactor (set_acfactor a s') = a
   \<and> acfactor_invariant (set_acfactor a s')
   \<and> amplitude_true_get rnd (set_acfactor a s') =
       truediv rnd (parameter s' (v1 (amplitude_true s'))) a
   \<and> VoltageDivider_set rnd (amplitude_true (set_acfactor a s')) val upstream =
       upstream (v1 (amplitude_true s') := rnd (val * a))"
  by (auto simp: SR830_T3_init_def acfactor_invariant_def acfactor_def set_acfactor_def
      amplitude_true_get_def VoltageDivider_get_def VoltageDivider_set_def mul_def Let_def
      split: sum.splits option.splits)

theorem acfactor_synchronised_witness:
  "SR830_T3_init (\<lambda>txt. if txt = ''1e7'' then Some 10000000 else None)
     \<lparr>parameter = (\<lambda>p. 1), ch1_display = ''X'', ch1_databuffer = []\<rparr>
     \<lparr>cfg = \<lparr>defaults = [], sections = [(''Gain settings'', [(''iv gain'', ''1e7'')])]\<rparr>,
      backing_file = None :: unit option, writable = True\<rparr>
   = Inr \<lparr>parameter = (\<lambda>p. 1), ch1_display = ''X'', ch1_databuffer = [],
          ivgain = 10000000, acf = 1,
          amplitude_true = \<lparr>v1 = amplitude, division_value = 1\<rparr>\<rparr>
   \<and> acfactor_invariant \<lparr>parameter = (\<lambda>p. 1), ch1_display = ''X'', ch1_databuffer = [],
          ivgain = 10000000, acf = 1,
          amplitude_true = \<lparr>v1 = amplitude, division_value = 1\<rparr>\<rparr>"
proof -
  have init: "SR830_T3_init (\<lambda>txt. if txt = ''1e7'' then Some 10000000 else None)
     \<lparr>parameter = (\<lambda>p. 1), ch1_display = ''X'', ch1_databuffer = []\<rparr>
     \<lparr>cfg = \<lparr>defaults = [], sections = [(''Gain settings'', [(''iv gain'', ''1e7'')])]\<rparr>,
      backing_file = None :: unit option, writable = True\<rparr>
   = Inr \<lparr>parameter = (\<lambda>p. 1), ch1_display = ''X'', ch1_databuffer = [],
          ivgain = 10000000, acf = 1,
          amplitude_true = \<lparr>v1 = amplitude, division_value = 1\<rparr>\<rparr>"
    by (simp add: SR830_T3_init_def ConfigFile_get_value_def getitem_def has_section_def
        has_option_def sectiondict_def default_section_def optionxform_def lower_char_def
        ConfigParser_get_def unify_values_def before_get_plain format_def acfactor_def Let_def)
  show ?thesis
    using init acfactor_synchronised [of "\<lambda>txt. if txt = ''1e7'' then Some 10000000 else None"
      "\<lparr>parameter = (\<lambda>p. 1), ch1_display = ''X'', ch1_databuffer = []\<rparr>"
      "\<lparr>cfg = \<lparr>defaults = [], sections = [(''Gain settings'', [(''iv gain'', ''1e7'')])]\<rparr>,
      backing_file = None :: unit option, writable = True\<rparr>"
      "\<lparr>parameter = (\<lambda>p. 1), ch1_display = ''X'', ch1_databuffer = [],
          ivgain = 10000000, acf = 1,
          amplitude_true = \<lparr>v1 = amplitude, division_value = 1\<rparr>\<rparr>" 1
      "\<lparr>parameter = (\<lambda>p. 1), ch1_display = ''X'', ch1_databuffer = [],
          ivgain = 10000000, acf = 1,
          amplitude_true = \<lparr>v1 = amplitude, division_value = 1\<rparr>\<rparr>" "\<lambda>x. x" 1 "\<lambda>p. 1"]
    by simp
qed

text \<open>The equations that evaluate a lookup in a concrete configuration.\<close>

lemmas config_eval =
  ConfigFile_get_dict_def ConfigFile_get_value_def getitem_def has_section_def
  has_option_def sectiondict_def default_section_def optionxform_def lower_char_def
  ConfigParser_get_def unify_values_def before_get_plain format_def section_keys_def

text \<open>
  C8. Once the two cutter channels are read, \<open>get_cutters\<close> never raises: when the
  absolute difference of the left and the right voltage exceeds \<open>0.05\<close> it prints the
  warning and returns \<open>None\<close>, and otherwise it returns the left voltage and prints
  nothing.
\<close>

theorem cutters_mismatch:
  assumes "ConfigFile_get_dict config ''Channel Parameters'' = Inr dic"
    and "map_of dic ''left cutter'' = Some l" and "py_int l = Some li"
    and "channel_volt channels li = Inr vleft"
    and "map_of dic ''right cutter'' = Some r" and "py_int r = Some ri"
    and "channel_volt channels ri = Inr vright"
  shows "(rnd (5 / 100) < \<bar>sub rnd vleft vright\<bar> \<longrightarrow>
            get_cutters rnd py_int config channels =
              Inr ([''Error! Left and right cutter are not the same!''], None))
       \<and> (\<bar>sub rnd vleft vright\<bar> \<le> rnd (5 / 100) \<longrightarrow>
            get_cutters rnd py_int config channels = Inr ([], Some vleft))"
  using assms by (simp add: get_cutters_def)

theorem cutters_mismatch_witness:
  "get_cutters (\<lambda>x. x) (\<lambda>txt. if txt = ''1'' then Some 1 else if txt = ''2'' then Some 2 else None)
     \<lparr>cfg = \<lparr>defaults = [], sections = [(''Channel Parameters'',
               [(''left cutter'', ''1''), (''right cutter'', ''2'')])]\<rparr>,
      backing_file = None :: unit option, writable = True\<rparr>
     [0, 1, 2]
   = Inr ([''Error! Left and right cutter are not the same!''], None)
   \<and> get_cutters (\<lambda>x. x) (\<lambda>txt. if txt = ''1'' then Some 1 else if txt = ''2'' then Some 2 else None)
     \<lparr>cfg = \<lparr>defaults = [], sections = [(''Channel Parameters'',
               [(''left cutter'', ''1''), (''right cutter'', ''2'')])]\<rparr>,
      backing_file = None :: unit option, writable = True\<rparr>
     [0, 1, 1 + 5 / 100]
   = Inr ([], Some 1)"
  using cutters_mismatch [of "\<lparr>cfg = \<lparr>defaults = [], sections = [(''Channel Parameters'',
               [(''left cutter'', ''1''), (''right cutter'', ''2'')])]\<rparr>,
      backing_file = None :: unit option, writable = True\<rparr>"
      "[(''left cutter'', ''1''), (''right cutter'', ''2'')]" "''1''"
      "\<lambda>txt. if txt = ''1'' then Some 1 else if txt = ''2'' then Some 2 else None"
      1 "[0, 1, 2]" 1 "''2''" 2 2 "\<lambda>x. x"]
    cutters_mismatch [of "\<lparr>cfg = \<lparr>defaults = [], sections = [(''Channel Parameters'',
               [(''left cutter'', ''1''), (''right cutter'', ''2'')])]\<rparr>,
      backing_file = None :: unit option, writable = True\<rparr>"
      "[(''left cutter'', ''1''), (''right cutter'', ''2'')]" "''1''"
      "\<lambda>txt. if txt = ''1'' then Some 1 else if txt = ''2'' then Some 2 else None"
      1 "[0, 1, 1 + 5 / 100]" 1 "''2''" 2 "1 + 5 / 100" "\<lambda>x. x"]
  by (simp add: config_eval channel_volt_def sub_def)

text \<open>The loop reads every channel it is given and warns for the positive ones.\<close>

lemma check_channels_all:
  assumes "\<forall>ch \<in> set chs. latest (''ch'' @ format_02 ch @ ''_v'') \<noteq> None"
  shows "check_channels latest chs =
           Inr (chs, concat (map (\<lambda>ch. case latest (''ch'' @ format_02 ch @ ''_v'') of
                                          None \<Rightarrow> []
                                        | Some v \<Rightarrow> if 0 < v then [(ch, v)] else []) chs))"
  using assms by (induction chs) auto

text \<open>
  C9. With the used channels read from the section of channel labels,
  \<open>check_unused_qdac_channels\<close> returns, and the channels it inspects are exactly those of
  1 to 47 that are not used, each once: 1 and 47 are inspected unless used, 0 and 48 never
  are. It warns exactly for the inspected channels whose latest voltage is greater than 0.
\<close>

theorem unused_channels_complement:
  assumes "used_channels py_int configs = Inr used"
    and "\<forall>ch \<in> {1..47}. latest (''ch'' @ format_02 ch @ ''_v'') \<noteq> None"
  shows "\<exists>inspected warnings.
           check_unused_qdac_channels py_int configs latest = Inr (inspected, warnings)
         \<and> set inspected = {ch. 1 \<le> ch \<and> ch \<le> 47 \<and> int ch \<notin> set used}
         \<and> distinct inspected
         \<and> 0 \<notin> set inspected \<and> 48 \<notin> set inspected
         \<and> (1 \<in> set inspected \<longleftrightarrow> 1 \<notin> set used)
         \<and> (47 \<in> set inspected \<longleftrightarrow> 47 \<notin> set used)
         \<and> (\<forall>ch v. (ch, v) \<in> set warnings \<longleftrightarrow>
                ch \<in> set inspected \<and> latest (''ch'' @ format_02 ch @ ''_v'') = Some v \<and> 0 < v)"
proof -
  define chs where "chs = filter (\<lambda>el. int el \<notin> set used) [1..<48]"
  have mem: "set chs = {ch. 1 \<le> ch \<and> ch \<le> 47 \<and> int ch \<notin> set used}"
    by (auto simp: chs_def)
  then have "\<forall>ch \<in> set chs. latest (''ch'' @ format_02 ch @ ''_v'') \<noteq> None"
    using assms(2) by auto
  then have run: "check_unused_qdac_channels py_int configs latest =
      Inr (chs, concat (map (\<lambda>ch. case latest (''ch'' @ format_02 ch @ ''_v'') of
                                          None \<Rightarrow> []
                                        | Some v \<Rightarrow> if 0 < v then [(ch, v)] else []) chs))"
    using assms(1) by (simp add: check_unused_qdac_channels_def chs_def check_channels_all)
  have "distinct chs"
    by (simp add: chs_def)
  moreover have "\<forall>ch v. (ch, v) \<in> set (concat (map (\<lambda>ch. case latest (''ch'' @ format_02 ch @ ''_v'') of
                                          None \<Rightarrow> []
                                        | Some v \<Rightarrow> if 0 < v then [(ch, v)] else []) chs)) \<longleftrightarrow>
                ch \<in> set chs \<and> latest (''ch'' @ format_02 ch @ ''_v'') = Some v \<and> 0 < v"
    by (auto split: option.splits if_splits)
  ultimately show ?thesis
    using run mem by auto
qed

theorem unused_channels_complement_witness:
  "used_channels (\<lambda>txt. if txt = ''1'' then Some 1 else if txt = ''47'' then Some 47 else None)
     \<lparr>cfg = \<lparr>defaults = [], sections = [(''QDac Channel Labels'',
               [(''47'', ''gate''), (''1'', ''bias'')])]\<rparr>,
      backing_file = None :: unit option, writable = True\<rparr> = Inr [1, 47]
   \<and> (\<exists>inspected warnings.
        check_unused_qdac_channels
          (\<lambda>txt. if txt = ''1'' then Some 1 else if txt = ''47'' then Some 47 else None)
          \<lparr>cfg = \<lparr>defaults = [], sections = [(''QDac Channel Labels'',
               [(''47'', ''gate''), (''1'', ''bias'')])]\<rparr>,
           backing_file = None :: unit option, writable = True\<rparr>
          (\<lambda>name. if name = ''ch02_v'' then Some 1 else Some 0) = Inr (inspected, warnings)
        \<and> set inspected = {ch. 1 \<le> ch \<and> ch \<le> 47 \<and> int ch \<notin> set [1, 47]}
        \<and> 1 \<notin> set inspected \<and> 47 \<notin> set inspected)"
proof -
  have used: "used_channels (\<lambda>txt. if txt = ''1'' then Some 1 else if txt = ''47'' then Some 47 else None)
     \<lparr>cfg = \<lparr>defaults = [], sections = [(''QDac Channel Labels'',
               [(''47'', ''gate''), (''1'', ''bias'')])]\<rparr>,
      backing_file = None :: unit option, writable = True\<rparr> = Inr [1, 47]"
    by (simp add: used_channels_def config_eval)
  have latest: "\<forall>ch \<in> {1..47}.
      (\<lambda>name. if name = ''ch02_v'' then Some (1 :: real) else Some 0)
        (''ch'' @ format_02 ch @ ''_v'') \<noteq> None"
    by simp
  from unused_channels_complement [OF used latest] obtain inspected warnings where
    "check_unused_qdac_channels
          (\<lambda>txt. if txt = ''1'' then Some 1 else if txt = ''47'' then Some 47 else None)
          \<lparr>cfg = \<lparr>defaults = [], sections = [(''QDac Channel Labels'',
               [(''47'', ''gate''), (''1'', ''bias'')])]\<rparr>,
           backing_file = None :: unit option, writable = True\<rparr>
          (\<lambda>name. if name = ''ch02_v'' then Some 1 else Some 0) = Inr (inspected, warnings)"
    and "set inspected = {ch. 1 \<le> ch \<and> ch \<le> 47 \<and> int ch \<notin> set [1, 47]}"
    and "1 \<in> set inspected \<longleftrightarrow> 1 \<notin> set [1, 47 :: int]"
    and "47 \<in> set inspected \<longleftrightarrow> 47 \<notin> set [1, 47 :: int]"
    by blast
  with used show ?thesis
    by auto
qed

text \<open>
  Lemmas on the loop of \<open>set_ranges\<close>: what one iteration does, which validators a run
  leaves alone, which it installs, and that a malformed range makes it raise.
\<close>

lemma targets_simps [simp]:
  "targets h [] = []"
  "targets h ((chan_id, channel) # dict) = target h channel # targets h dict"
  by (simp_all add: targets_def)

lemma configured_simps [simp]:
  "configured ranges [] = []"
  "configured ranges ((chan_id, channel) # dict) =
     (if map_of ranges (str_int chan_id) \<noteq> None
      then (chan_id, channel) # configured ranges dict
      else configured ranges dict)"
  by (simp_all add: configured_def)

lemma divider_set_validator [simp]: "divider (set_validator a v h b) = divider (h b)"
  by (simp add: set_validator_def)

lemma vals_set_validator [simp]:
  "vals (set_validator a v h b) = (if b = a then v else vals (h b))"
  by (simp add: set_validator_def)

lemma target_set_validator [simp]: "target (set_validator a v h) = target h"
  by (simp add: target_def fun_eq_iff)

lemma targets_set_validator [simp]: "targets (set_validator a v h) dict = targets h dict"
  by (simp add: targets_def)










text \<open>
  Reading a file into the parser: the stored value of every option after the merge, and
  the sections after it.
\<close>

lemma fold_update_map_of:
  "distinct (map fst ps) \<Longrightarrow>
   map_of (fold (\<lambda>(k, v). AList.update k v) ps cursect) = map_of cursect ++ map_of ps"
proof (induction ps arbitrary: cursect)
  case Nil
  then show ?case by simp
next
  case (Cons kv ps)
  obtain k v where kv: "kv = (k, v)"
    by (cases kv)
  from Cons.prems have fresh: "k \<notin> dom (map_of ps)" and dist: "distinct (map fst ps)"
    by (auto simp: kv dom_map_of_conv_image_fst)
  have "map_of (fold (\<lambda>(k, v). AList.update k v) (kv # ps) cursect) =
          map_of (AList.update k v cursect) ++ map_of ps"
    using Cons.IH [OF dist] by (simp add: kv)
  also have "\<dots> = (map_of cursect)(k \<mapsto> v) ++ map_of ps"
    by (simp only: update_conv')
  also have "\<dots> = (map_of cursect ++ map_of ps)(k \<mapsto> v)"
    using fresh by (rule map_add_upd_left)
  finally have "map_of (fold (\<lambda>(k, v). AList.update k v) (kv # ps) cursect) =
      (map_of cursect ++ map_of ps)(k \<mapsto> v)" .
  then show ?case
    by (simp only: kv map_of.simps fst_conv snd_conv map_add_upd)
qed

lemma read_options_map_of:
  "distinct (map fst (read_keys opts)) \<Longrightarrow>
   map_of (read_options opts cursect) = map_of cursect ++ map_of (read_keys opts)"
  by (simp add: read_options_def fold_update_map_of)

lemma sectiondict_update:
  "sectiondict (p\<lparr>sections := AList.update sectname d (sections p)\<rparr>) section =
     (if section = default_section then []
      else if section = sectname then d else sectiondict p section)"
  by (simp add: sectiondict_def update_conv')

lemma stored_read_section:
  assumes "distinct (map fst (read_keys opts))"
  shows "stored (read_section (sectname, opts) p) section key =
     (if section = sectname
      then (case map_of (read_keys opts) key of
              Some v \<Rightarrow> Some v
            | None \<Rightarrow> stored p section key)
      else stored p section key)"
proof (cases "sectname = default_section")
  case True
  then show ?thesis
    using assms
    by (auto simp: stored_def read_section_def read_options_map_of map_add_def sectiondict_def
        split: option.splits)
next
  case False
  then show ?thesis
    using assms
    by (auto simp: stored_def read_section_def read_options_map_of map_add_def
        sectiondict_update split: option.splits)
qed

lemma has_section_read_section:
  "has_section (read_section (sectname, opts) p) section \<longleftrightarrow>
     has_section p section \<or> (section = sectname \<and> sectname \<noteq> default_section)"
  by (auto simp: has_section_def read_section_def update_conv')

lemma has_section_fold:
  "has_section (fold read_section doc p) section \<longleftrightarrow>
     has_section p section \<or> (section \<noteq> default_section \<and> section \<in> fst ` set doc)"
proof (induction doc arbitrary: p)
  case Nil
  then show ?case by simp
next
  case (Cons sec doc)
  obtain sectname opts where sec: "sec = (sectname, opts)"
    by (cases sec)
  show ?case
    by (auto simp: sec Cons.IH has_section_read_section)
qed

lemma file_options_Cons:
  "file_options ((sectname, opts) # doc) =
     map (\<lambda>(k, v). ((sectname, k), v)) (read_keys opts) @ file_options doc"
  by (simp add: file_options_def)

lemma map_of_section_options:
  "map_of (map (\<lambda>(k, v). ((sectname, k), v)) ps) (section, key) =
     (if section = sectname then map_of ps key else None)"
  by (induction ps) auto

lemma distinct_section_options:
  "distinct (map fst (map (\<lambda>(k, v). ((sectname, k), v)) ps)) \<Longrightarrow> distinct (map fst ps)"
  by (induction ps) (auto simp: image_iff)

lemma stored_fold:
  assumes "distinct (map fst (file_options doc))"
  shows "stored (fold read_section doc p) section key =
     (case file_value doc section key of
        Some v \<Rightarrow> Some v
      | None \<Rightarrow> stored p section key)"
  using assms
proof (induction doc arbitrary: p)
  case Nil
  then show ?case by (simp add: file_value_def file_options_def)
next
  case (Cons sec doc)
  obtain sectname opts where sec: "sec = (sectname, opts)"
    by (cases sec)
  let ?head = "map (\<lambda>(k, v). ((sectname, k), v)) (read_keys opts)"
  from Cons.prems have dh: "distinct (map fst ?head)"
    and dr: "distinct (map fst (file_options doc))"
    and disj: "set (map fst ?head) \<inter> set (map fst (file_options doc)) = {}"
    by (simp_all add: sec file_options_Cons)
  from dh have dopts: "distinct (map fst (read_keys opts))"
    by (rule distinct_section_options)
  have fv: "file_value (sec # doc) section key =
      (case map_of ?head (section, key) of
         Some v \<Rightarrow> Some v
       | None \<Rightarrow> file_value doc section key)"
    by (simp add: file_value_def sec file_options_Cons map_add_def split: option.splits)
  have excl: "file_value doc section key = None" if "map_of ?head (section, key) \<noteq> None"
  proof -
    from that have "(section, key) \<in> set (map fst ?head)"
      by (metis map_of_eq_None_iff set_map)
    with disj have "(section, key) \<notin> set (map fst (file_options doc))"
      by blast
    then show ?thesis
      by (simp add: file_value_def map_of_eq_None_iff)
  qed
  have step: "stored (fold read_section doc (read_section (sectname, opts) p)) section key =
      (case file_value doc section key of
         Some v \<Rightarrow> Some v
       | None \<Rightarrow> stored (read_section (sectname, opts) p) section key)"
    by (rule Cons.IH [OF dr])
  show ?case
  proof (cases "map_of ?head (section, key)")
    case None
    then show ?thesis
      by (auto simp: sec step fv [unfolded sec] stored_read_section [OF dopts]
          map_of_section_options split: if_splits option.splits)
  next
    case (Some v)
    with excl have "file_value doc section key = None"
      by simp
    with Some show ?thesis
      by (auto simp: sec step fv [unfolded sec] stored_read_section [OF dopts]
          map_of_section_options split: if_splits option.splits)
  qed
qed







text \<open>The equations that evaluate the operations of the store on a concrete state.\<close>

lemmas store_eval =
  ConfigFile_set_def ConfigFile_get_def setitem_def before_set_def reload_def load_def
  read_ini_def read_section_def read_options_def read_keys_def file_options_def
  file_value_def stored_def interpolate_some.simps before_get_def Let_def





text \<open>
  C6 (as amended). \<open>reload()\<close> merges the backing file into the in-memory mapping. When
  the file does not exist the store is left as it is. Otherwise, after a \<open>reload()\<close> that
  returns, every option the file holds has the file's value, every option the file does
  not hold keeps the value the store had, and the sections are those of the store before
  together with those of the file.
\<close>

theorem reload_merges:
  "(backing_file c = None \<longrightarrow> reload parse_ini c = Inr c)
   \<and> (\<forall>content doc c'.
        backing_file c = Some content \<and> parse_ini content = Inr doc
        \<and> reload parse_ini c = Inr c' \<longrightarrow>
          (\<forall>section key.
             stored (cfg c') section key =
               (case file_value doc section key of
                  Some v \<Rightarrow> Some v
                | None \<Rightarrow> stored (cfg c) section key))
        \<and> (\<forall>section.
             has_section (cfg c') section \<longleftrightarrow>
               has_section (cfg c) section
               \<or> (section \<noteq> default_section \<and> section \<in> fst ` set doc)))"
proof (intro conjI)
  show "backing_file c = None \<longrightarrow> reload parse_ini c = Inr c"
    by (simp add: reload_def load_def)
next
  show "\<forall>content doc c'.
        backing_file c = Some content \<and> parse_ini content = Inr doc
        \<and> reload parse_ini c = Inr c' \<longrightarrow>
          (\<forall>section key.
             stored (cfg c') section key =
               (case file_value doc section key of
                  Some v \<Rightarrow> Some v
                | None \<Rightarrow> stored (cfg c) section key))
        \<and> (\<forall>section.
             has_section (cfg c') section \<longleftrightarrow>
               has_section (cfg c) section
               \<or> (section \<noteq> default_section \<and> section \<in> fst ` set doc))"
  proof (intro allI impI)
    fix content doc c'
    assume run: "backing_file c = Some content \<and> parse_ini content = Inr doc
        \<and> reload parse_ini c = Inr c'"
    then have dist: "distinct (map fst (file_options doc))"
      and merged: "cfg c' = fold read_section doc (cfg c)"
      by (auto simp: reload_def load_def read_ini_def split: if_splits)
    show "(\<forall>section key.
             stored (cfg c') section key =
               (case file_value doc section key of
                  Some v \<Rightarrow> Some v
                | None \<Rightarrow> stored (cfg c) section key))
        \<and> (\<forall>section.
             has_section (cfg c') section \<longleftrightarrow>
               has_section (cfg c) section
               \<or> (section \<noteq> default_section \<and> section \<in> fst ` set doc))"
      unfolding merged by (simp add: stored_fold [OF dist] has_section_fold)
  qed
qed

theorem reload_merges_witness:
  "reload Inr
     \<lparr>cfg = \<lparr>defaults = [],
             sections = [(''Gain settings'', [(''iv gain'', ''1e7''), (''dc factor'', ''100'')])]\<rparr>,
      backing_file = Some [(''Gain settings'', [(''iv gain'', ''1e8'')]),
                           (''Ramp speeds'', [(''max rampspeed bg'', ''0.1'')])],
      writable = True\<rparr>
   = Inr
     \<lparr>cfg = \<lparr>defaults = [],
             sections = [(''Gain settings'', [(''iv gain'', ''1e8''), (''dc factor'', ''100'')]),
                         (''Ramp speeds'', [(''max rampspeed bg'', ''0.1'')])]\<rparr>,
      backing_file = Some [(''Gain settings'', [(''iv gain'', ''1e8'')]),
                           (''Ramp speeds'', [(''max rampspeed bg'', ''0.1'')])],
      writable = True\<rparr>
   \<and> stored
     \<lparr>defaults = [],
      sections = [(''Gain settings'', [(''iv gain'', ''1e8''), (''dc factor'', ''100'')]),
                  (''Ramp speeds'', [(''max rampspeed bg'', ''0.1'')])]\<rparr>
     ''Gain settings'' ''iv gain'' = Some ''1e8''
   \<and> stored
     \<lparr>defaults = [],
      sections = [(''Gain settings'', [(''iv gain'', ''1e8''), (''dc factor'', ''100'')]),
                  (''Ramp speeds'', [(''max rampspeed bg'', ''0.1'')])]\<rparr>
     ''Gain settings'' ''dc factor'' = Some ''100''"
proof -
  let ?doc = "[(''Gain settings'', [(''iv gain'', ''1e8'')]),
               (''Ramp speeds'', [(''max rampspeed bg'', ''0.1'')])]"
  let ?c = "\<lparr>cfg = \<lparr>defaults = [],
             sections = [(''Gain settings'', [(''iv gain'', ''1e7''), (''dc factor'', ''100'')])]\<rparr>,
      backing_file = Some ?doc, writable = True\<rparr>"
  let ?p' = "\<lparr>defaults = [],
             sections = [(''Gain settings'', [(''iv gain'', ''1e8''), (''dc factor'', ''100'')]),
                         (''Ramp speeds'', [(''max rampspeed bg'', ''0.1'')])]\<rparr>"
  have run: "reload Inr ?c = Inr (?c\<lparr>cfg := ?p'\<rparr>)"
    by (simp add: store_eval config_eval)
  from reload_merges [of ?c Inr] run
  have "stored ?p' ''Gain settings'' ''iv gain'' =
          (case file_value ?doc ''Gain settings'' ''iv gain'' of
             Some v \<Rightarrow> Some v
           | None \<Rightarrow> stored (cfg ?c) ''Gain settings'' ''iv gain'')"
    and "stored ?p' ''Gain settings'' ''dc factor'' =
          (case file_value ?doc ''Gain settings'' ''dc factor'' of
             Some v \<Rightarrow> Some v
           | None \<Rightarrow> stored (cfg ?c) ''Gain settings'' ''dc factor'')"
    by auto
  then have "stored ?p' ''Gain settings'' ''iv gain'' = Some ''1e8''"
    and "stored ?p' ''Gain settings'' ''dc factor'' = Some ''100''"
    by (simp_all add: store_eval config_eval)
  with run show ?thesis
    by simp
qed

theorem reload_merges_counterexample:
  "reload Inr
     \<lparr>cfg = \<lparr>defaults = [],
             sections = [(''Gain settings'', [(''iv gain'', ''1e7''), (''dc factor'', ''100'')]),
                         (''Ramp speeds'', [(''max rampspeed bg'', ''0.1'')])]\<rparr>,
      backing_file = Some [(''Gain settings'', [(''iv gain'', ''1e8'')])], writable = True\<rparr>
   = Inr
     \<lparr>cfg = \<lparr>defaults = [],
             sections = [(''Gain settings'', [(''iv gain'', ''1e8''), (''dc factor'', ''100'')]),
                         (''Ramp speeds'', [(''max rampspeed bg'', ''0.1'')])]\<rparr>,
      backing_file = Some [(''Gain settings'', [(''iv gain'', ''1e8'')])], writable = True\<rparr>
   \<and> file_value [(''Gain settings'', [(''iv gain'', ''1e8'')])] ''Gain settings'' ''dc factor'' = None
   \<and> ConfigFile_get
     \<lparr>cfg = \<lparr>defaults = [],
             sections = [(''Gain settings'', [(''iv gain'', ''1e8''), (''dc factor'', ''100'')]),
                         (''Ramp speeds'', [(''max rampspeed bg'', ''0.1'')])]\<rparr>,
      backing_file = Some [(''Gain settings'', [(''iv gain'', ''1e8'')])], writable = True\<rparr>
     ''Gain settings'' (PyStr ''dc factor'')
   = Inr (Value ''100'')
   \<and> ''Ramp speeds'' \<notin> fst ` set [(''Gain settings'', [(''iv gain'', ''1e8'')])]
   \<and> has_section
     \<lparr>defaults = [],
      sections = [(''Gain settings'', [(''iv gain'', ''1e8''), (''dc factor'', ''100'')]),
                  (''Ramp speeds'', [(''max rampspeed bg'', ''0.1'')])]\<rparr>
     ''Ramp speeds''"
  by (simp add: store_eval config_eval)

end
